theory Spec2Isabelle
  imports Complex_Main
begin

section \<open>Battery control session manager of ha-solarman\<close>

text \<open>
  A shallow embedding of \<^verbatim>\<open>custom_components/solarman/battery_control.py\<close>
  (class \<^verbatim>\<open>BatteryControlManager\<close>) and of the service handler
  \<^verbatim>\<open>_battery_control\<close> of \<^verbatim>\<open>services.py\<close>.

  Conventions of the model:
  \<^item> a coroutine that raises returns \<open>Inl e\<close>; one that returns normally returns \<open>Inr ()\<close>;
  \<^item> the register client \<^verbatim>\<open>coordinator.device.execute\<close> is an external collaborator:
    the device records every call it receives and takes the outcome of each call from a
    script (\<open>outcomes\<close>), so that any pattern of communication failures can be written down;
  \<^item> the asyncio event loop is a table of tasks (\<open>tasks\<close>); a task handle is its index;
  \<^item> each of \<^verbatim>\<open>start_battery_control\<close>, \<^verbatim>\<open>stop_battery_control\<close>, one wake-up
    of \<^verbatim>\<open>_watchdog_ping\<close> and of \<^verbatim>\<open>_auto_stop\<close> runs to its end before another
    task is scheduled (the interleavings at an \<^verbatim>\<open>await\<close> are not modelled);
  \<^item> \<^verbatim>\<open>power_watts\<close>, \<^verbatim>\<open>duration_minutes\<close> and the rated-power reading are Python
    integers; \<^verbatim>\<open>set_virtual_value\<close> and the logger do not raise.
\<close>

subsection \<open>Python numbers: true division, float product, \<^verbatim>\<open>int()\<close>\<close>

datatype error =
    CommunicationError nat
  | ZeroDivisionError
  | OverflowError
  | ServiceValidationError error

text \<open>
  A binary64 value: \<open>Float m e\<close> stands for \<open>m * 2 ^ e\<close>, \<open>Infinity\<close> for an infinity.
  Results are rounded to 53 significant bits, ties to even. The exponent is not bounded
  below: a quotient under \<open>2 ^ - 1022\<close> is truncated to 0 by \<^verbatim>\<open>int()\<close> after the
  product with 1000 whatever its last bits are.
\<close>

datatype float64 = Float int int | Infinity

text \<open>\<^verbatim>\<open>int.bit_length()\<close>\<close>

fun bit_length :: "nat \<Rightarrow> nat" where
  "bit_length n = (if n = 0 then 0 else Suc (bit_length (n div 2)))"

declare bit_length.simps [simp del]

text \<open>The quotient \<open>n / d\<close> rounded to the nearest natural number, ties to even.\<close>

definition round_half_even :: "nat \<Rightarrow> nat \<Rightarrow> nat" where
  "round_half_even n d =
     (let q = n div d; r = n mod d
      in if 2 * r < d then q
         else if d < 2 * r then q + 1
         else if even q then q else q + 1)"

text \<open>\<open>scaled n d k\<close> is the fraction \<open>n * 2 ^ k / d\<close> as numerator and denominator.\<close>

definition scaled :: "nat \<Rightarrow> nat \<Rightarrow> int \<Rightarrow> nat \<times> nat" where
  "scaled n d k = (if 0 \<le> k then (n * 2 ^ nat k, d) else (n, d * 2 ^ nat (- k)))"

text \<open>
  \<open>round53 n d\<close> rounds the positive fraction \<open>n / d\<close> to 53 bits: the shift \<open>s\<close> brings
  \<open>n * 2 ^ s / d\<close> into \<open>[2 ^ 52, 2 ^ 53)\<close>, the result \<open>(m, e)\<close> stands for \<open>m * 2 ^ e\<close>.
\<close>

definition round53 :: "nat \<Rightarrow> nat \<Rightarrow> nat \<times> int" where
  "round53 n d =
     (let k = int (bit_length d) - int (bit_length n) + 53;
          s = (case scaled n d k of (a, b) \<Rightarrow> if 2 ^ 53 * b \<le> a then k - 1 else k)
      in case scaled n d s of (a, b) \<Rightarrow> (round_half_even a b, - s))"

text \<open>The binary64 value nearest to \<open>\<plusminus> n / d\<close>; \<open>Infinity\<close> from \<open>2 ^ 1024\<close> on.\<close>

definition float_of_ratio :: "bool \<Rightarrow> nat \<Rightarrow> nat \<Rightarrow> float64" where
  "float_of_ratio neg n d =
     (if n = 0 then Float 0 0
      else case round53 n d of (m, e) \<Rightarrow>
        if 971 < e \<or> (e = 971 \<and> 2 ^ 53 \<le> m) then Infinity
        else Float (if neg then - int m else int m) e)"

text \<open>
  \<^verbatim>\<open>a / b\<close> on two Python integers: the correctly rounded quotient,
  \<^verbatim>\<open>ZeroDivisionError\<close> for \<open>b = 0\<close>, \<^verbatim>\<open>OverflowError\<close> when the quotient is
  too large for a float.
\<close>

definition truediv :: "int \<Rightarrow> int \<Rightarrow> error + float64" where
  "truediv a b =
     (if b = 0 then Inl ZeroDivisionError
      else case float_of_ratio ((a < 0) \<noteq> (b < 0)) (nat \<bar>a\<bar>) (nat \<bar>b\<bar>) of
        Infinity \<Rightarrow> Inl OverflowError
      | f \<Rightarrow> Inr f)"

text \<open>\<^verbatim>\<open>x * c\<close> for a float \<open>x\<close> and a small integer \<open>c\<close> (here 1000, exact as a float).\<close>

fun fmul :: "float64 \<Rightarrow> int \<Rightarrow> float64" where
  "fmul Infinity c = Infinity"
| "fmul (Float m e) c =
     (if 0 \<le> e then float_of_ratio ((m < 0) \<noteq> (c < 0)) (nat \<bar>m * c\<bar> * 2 ^ nat e) 1
      else float_of_ratio ((m < 0) \<noteq> (c < 0)) (nat \<bar>m * c\<bar>) (2 ^ nat (- e)))"

text \<open>\<^verbatim>\<open>int(x)\<close>: truncation toward zero; \<^verbatim>\<open>OverflowError\<close> on an infinity.\<close>

fun py_int :: "float64 \<Rightarrow> error + int" where
  "py_int Infinity = Inl OverflowError"
| "py_int (Float m e) =
     Inr (if 0 \<le> e then m * 2 ^ nat e
          else if 0 \<le> m then m div 2 ^ nat (- e)
          else - ((- m) div 2 ^ nat (- e)))"

subsection \<open>Rated power and the power percentage\<close>

text \<open>
  \<^verbatim>\<open>rated_power_data = self.coordinator.data.get("device_rated_power_sensor")\<close>,
  \<^verbatim>\<open>rated_power = rated_power_data[0] if rated_power_data else 20000\<close>:
  \<open>None\<close> is a missing key, \<open>Some []\<close> an empty entry, both falsy.
\<close>

definition rated_power :: "int list option \<Rightarrow> int" where
  "rated_power rated_power_data =
     (case rated_power_data of
        None \<Rightarrow> 20000
      | Some [] \<Rightarrow> 20000
      | Some (x # _) \<Rightarrow> x)"

text \<open>
  \<^verbatim>\<open>power_percentage = int((power_watts / rated_power) * 1000)\<close>,
  \<^verbatim>\<open>power_percentage = max(-1200, min(1200, power_percentage))\<close>
  (battery_control.py, lines 30 and 33).
\<close>

definition power_percentage :: "int \<Rightarrow> int \<Rightarrow> error + int" where
  "power_percentage power_watts rated =
     (case truediv power_watts rated of
        Inl e \<Rightarrow> Inl e
      | Inr q \<Rightarrow>
         (case py_int (fmul q 1000) of
            Inl e \<Rightarrow> Inl e
          | Inr k \<Rightarrow> Inr (max (- 1200) (min 1200 k))))"

text \<open>The same two lines of \<^verbatim>\<open>_battery_control\<close> (services.py, lines 80 and 81).\<close>

definition service_power_percentage :: "int \<Rightarrow> int \<Rightarrow> error + int" where
  "service_power_percentage power_watts rated =
     (case truediv power_watts rated of
        Inl e \<Rightarrow> Inl e
      | Inr q \<Rightarrow>
         (case py_int (fmul q 1000) of
            Inl e \<Rightarrow> Inl e
          | Inr k \<Rightarrow> Inr (max (- 1200) (min 1200 k))))"


subsection \<open>Device, tasks, manager\<close>

text \<open>A call \<^verbatim>\<open>execute(code, address, data=[...])\<close> as the device receives it.\<close>

type_synonym call = "nat \<times> nat \<times> int list"

record device =
  writes :: "call list"
  outcomes :: "error option list"

text \<open>
  \<open>outcomes\<close> scripts the calls to come: \<open>Some e\<close> makes the next call raise \<open>e\<close>,
  \<open>None\<close> makes it succeed, and so does an exhausted script.
\<close>

definition execute :: "device \<Rightarrow> nat \<Rightarrow> nat \<Rightarrow> int list \<Rightarrow> (error + unit) \<times> device" where
  "execute dv code address data =
     (case outcomes dv of
        [] \<Rightarrow> (Inr (), dv\<lparr>writes := writes dv @ [(code, address, data)]\<rparr>)
      | None # rest \<Rightarrow>
          (Inr (), dv\<lparr>writes := writes dv @ [(code, address, data)], outcomes := rest\<rparr>)
      | Some e # rest \<Rightarrow>
          (Inl e, dv\<lparr>writes := writes dv @ [(code, address, data)], outcomes := rest\<rparr>))"

text \<open>
  \<^verbatim>\<open>for address, value in registers: await self.coordinator.device.execute(0x10, address, data=[value])\<close>:
  the first failure leaves the loop.
\<close>

fun write_registers :: "(nat \<times> int) list \<Rightarrow> device \<Rightarrow> (error + unit) \<times> device" where
  "write_registers [] dv = (Inr (), dv)"
| "write_registers ((address, v) # registers) dv =
     (case execute dv 0x10 address [v] of
        (Inl e, dv') \<Rightarrow> (Inl e, dv')
      | (Inr _, dv') \<Rightarrow> write_registers registers dv')"

datatype task_kind = WatchdogPing | AutoStop int | ServiceStop int

datatype task_state = Created | Sleeping | Finished | Cancelled

record task =
  kind :: task_kind
  state :: task_state

text \<open>A task is live until it has finished or has been cancelled.\<close>

definition live :: "task \<Rightarrow> bool" where
  "live t = (state t = Created \<or> state t = Sleeping)"

datatype vvalue = VNum int | VBool bool

datatype log_entry = LogInfo | LogDebug | LogError error

record manager =
  control_active :: bool
  control_end_time :: "int option"
  watchdog_task :: "nat option"
  virtual_entities :: "string \<rightharpoonup> vvalue"

text \<open>
  The manager together with what it acts on: the device, the event loop's tasks, the
  clock (\<^verbatim>\<open>datetime.now()\<close>, in seconds since 0001-01-01), the cached rated-power
  entry of the coordinator, and the log.
\<close>

record world =
  mgr :: manager
  dev :: device
  tasks :: "task list"
  now :: int
  rated_power_data :: "int list option"
  log :: "log_entry list"

text \<open>\<^verbatim>\<open>BatteryControlManager.__init__\<close>\<close>

definition init_manager :: manager where
  "init_manager =
     \<lparr>control_active = False, control_end_time = None, watchdog_task = None,
      virtual_entities = Map.empty\<rparr>"

text \<open>\<^verbatim>\<open>register_virtual_entity\<close>: \<^verbatim>\<open>self.virtual_entities[name] = entity\<close>\<close>

definition register_virtual_entity :: "string \<Rightarrow> vvalue \<Rightarrow> manager \<Rightarrow> manager" where
  "register_virtual_entity name entity m =
     m\<lparr>virtual_entities := (virtual_entities m)(name \<mapsto> entity)\<rparr>"

text \<open>\<^verbatim>\<open>asyncio.create_task\<close>: the new task and its handle.\<close>

definition create_task :: "task_kind \<Rightarrow> task list \<Rightarrow> nat \<times> task list" where
  "create_task k ts = (length ts, ts @ [\<lparr>kind = k, state = Created\<rparr>])"

text \<open>\<^verbatim>\<open>task.cancel()\<close>: no effect on a task that is done.\<close>

definition cancel :: "nat \<Rightarrow> task list \<Rightarrow> task list" where
  "cancel h ts =
     (if h < length ts \<and> live (ts ! h) then ts[h := (ts ! h)\<lparr>state := Cancelled\<rparr>] else ts)"

text \<open>
  \<^verbatim>\<open>datetime.now() + timedelta(minutes=duration_minutes)\<close>: a date outside the years
  1 to 9999 is an \<^verbatim>\<open>OverflowError\<close> (3652059 days of 86400 seconds).
\<close>

definition end_time :: "int \<Rightarrow> int \<Rightarrow> error + int" where
  "end_time t duration_minutes =
     (let t' = t + 60 * duration_minutes
      in if 0 \<le> t' \<and> t' < 315537897600 then Inr t' else Inl OverflowError)"

subsection \<open>\<^verbatim>\<open>stop_battery_control\<close>\<close>

text \<open>The two indicator resets of lines 88 to 91, each only if the entity is registered.\<close>

definition reset_virtual_entities :: "(string \<rightharpoonup> vvalue) \<Rightarrow> (string \<rightharpoonup> vvalue)" where
  "reset_virtual_entities es =
     (let es1 = (if es ''Manual Battery Power'' \<noteq> None
                 then es(''Manual Battery Power'' \<mapsto> VNum 0) else es)
      in if es1 ''Manual Control Active'' \<noteq> None
         then es1(''Manual Control Active'' \<mapsto> VBool False) else es1)"

definition reset_registers :: "(nat \<times> int) list" where
  "reset_registers = [(0x044C, 0), (0x0455, 0)]"

text \<open>
  Lines 64 to 96. The early return on an inactive session; then, inside one
  \<^verbatim>\<open>try\<close>: cancel the watchdog task, write the two resets, clear the state, reset the
  indicators. An exception anywhere in the \<^verbatim>\<open>try\<close> is logged and ends the function.
\<close>

definition stop_battery_control :: "world \<Rightarrow> world" where
  "stop_battery_control w =
     (if \<not> control_active (mgr w) then w
      else
        let w1 = (case watchdog_task (mgr w) of
                    None \<Rightarrow> w
                  | Some h \<Rightarrow> w\<lparr>tasks := cancel h (tasks w)\<rparr>)
        in case write_registers reset_registers (dev w1) of
             (Inl e, dv) \<Rightarrow> w1\<lparr>dev := dv, log := log w1 @ [LogError e]\<rparr>
           | (Inr _, dv) \<Rightarrow>
               w1\<lparr>mgr := (mgr w1)\<lparr>control_active := False, control_end_time := None,
                                  virtual_entities := reset_virtual_entities (virtual_entities (mgr w1))\<rparr>,
                   dev := dv,
                   log := log w1 @ [LogInfo]\<rparr>)"

subsection \<open>\<^verbatim>\<open>start_battery_control\<close>\<close>

definition registers :: "int \<Rightarrow> (nat \<times> int) list" where
  "registers pct = [(0x044C, 1), (0x0450, 1), (0x0451, 2), (0x044D, 300), (0x0455, pct)]"

text \<open>
  The \<^verbatim>\<open>try\<close> block of lines 26 to 57: the result is the exception raised in it, if
  any, and the world at that point.
\<close>

definition start_try :: "int \<Rightarrow> int \<Rightarrow> world \<Rightarrow> (error + unit) \<times> world" where
  "start_try power_watts duration_minutes w =
     (case power_percentage power_watts (rated_power (rated_power_data w)) of
        Inl e \<Rightarrow> (Inl e, w)
      | Inr pct \<Rightarrow>
         (case write_registers (registers pct) (dev w) of
            (Inl e, dv) \<Rightarrow> (Inl e, w\<lparr>dev := dv\<rparr>)
          | (Inr _, dv) \<Rightarrow>
              let w1 = w\<lparr>mgr := (mgr w)\<lparr>control_active := True\<rparr>, dev := dv\<rparr>
              in case end_time (now w1) duration_minutes of
                   Inl e \<Rightarrow> (Inl e, w1)
                 | Inr t \<Rightarrow>
                     (case create_task WatchdogPing (tasks w1) of (h, ts1) \<Rightarrow>
                        (case create_task (AutoStop duration_minutes) ts1 of (_, ts2) \<Rightarrow>
                           (Inr (),
                            w1\<lparr>mgr := (mgr w1)\<lparr>control_end_time := Some t,
                                               watchdog_task := Some h\<rparr>,
                               tasks := ts2,
                               log := log w1 @ [LogInfo]\<rparr>)))))"

text \<open>
  Lines 21 to 62: stop a running session first; run the \<^verbatim>\<open>try\<close> block; on an
  exception log it, call \<^verbatim>\<open>stop_battery_control\<close> and raise it again.
\<close>

definition start_battery_control :: "int \<Rightarrow> int \<Rightarrow> world \<Rightarrow> (error + unit) \<times> world" where
  "start_battery_control power_watts duration_minutes w =
     (let w0 = (if control_active (mgr w) then stop_battery_control w else w)
      in case start_try power_watts duration_minutes w0 of
           (Inr _, w') \<Rightarrow> (Inr (), w')
         | (Inl e, w') \<Rightarrow> (Inl e, stop_battery_control (w'\<lparr>log := log w' @ [LogError e]\<rparr>)))"

subsection \<open>The background tasks\<close>

text \<open>
  The loop condition of \<^verbatim>\<open>_watchdog_ping\<close>,
  \<^verbatim>\<open>self.control_active and datetime.now() < self.control_end_time\<close>. With the session
  active and no end time the comparison raises and the task ends.
\<close>

definition watchdog_continue :: "world \<Rightarrow> bool" where
  "watchdog_continue w =
     (control_active (mgr w) \<and>
      (case control_end_time (mgr w) of None \<Rightarrow> False | Some t \<Rightarrow> now w < t))"

definition set_task_state :: "nat \<Rightarrow> task_state \<Rightarrow> world \<Rightarrow> world" where
  "set_task_state h s w = w\<lparr>tasks := (tasks w)[h := (tasks w ! h)\<lparr>state := s\<rparr>]\<rparr>"

text \<open>
  One watchdog tick: \<^verbatim>\<open>asyncio.sleep(240)\<close> has returned in task \<open>h\<close>. If the session is
  active, write remote-mode-enable; a failure is logged. Then the loop condition decides
  between the next sleep and the end of the task.
\<close>

definition watchdog_ping :: "nat \<Rightarrow> world \<Rightarrow> world" where
  "watchdog_ping h w =
     (let w1 = (if control_active (mgr w)
                then case execute (dev w) 0x10 0x044C [1] of
                       (Inl e, dv) \<Rightarrow> w\<lparr>dev := dv, log := log w @ [LogError e]\<rparr>
                     | (Inr _, dv) \<Rightarrow> w\<lparr>dev := dv, log := log w @ [LogDebug]\<rparr>
                else w)
      in set_task_state h (if watchdog_continue w1 then Sleeping else Finished) w1)"

text \<open>
  \<^verbatim>\<open>_auto_stop\<close> after its sleep:
  \<^verbatim>\<open>if self.control_active: await self.stop_battery_control()\<close>.
\<close>

definition auto_stop :: "nat \<Rightarrow> world \<Rightarrow> world" where
  "auto_stop h w =
     set_task_state h Finished
       (if control_active (mgr w) then stop_battery_control w else w)"

text \<open>
  \<^verbatim>\<open>stop_control\<close> of the service handler after its sleep: the two resets in a
  \<^verbatim>\<open>try\<close>, a failure logged.
\<close>

definition stop_control :: "nat \<Rightarrow> world \<Rightarrow> world" where
  "stop_control h w =
     set_task_state h Finished
       (case write_registers reset_registers (dev w) of
          (Inl e, dv) \<Rightarrow> w\<lparr>dev := dv, log := log w @ [LogError e]\<rparr>
        | (Inr _, dv) \<Rightarrow> w\<lparr>dev := dv, log := log w @ [LogInfo]\<rparr>)"

text \<open>
  The event loop runs a created task up to its first \<^verbatim>\<open>await\<close>: the watchdog checks
  its loop condition and sleeps 240 seconds, the two stop tasks sleep for the duration.
\<close>

definition run_task :: "nat \<Rightarrow> world \<Rightarrow> world" where
  "run_task h w =
     (if h < length (tasks w) \<and> state (tasks w ! h) = Created
      then case kind (tasks w ! h) of
             WatchdogPing \<Rightarrow>
               set_task_state h (if watchdog_continue w then Sleeping else Finished) w
           | AutoStop d \<Rightarrow> set_task_state h Sleeping w
           | ServiceStop d \<Rightarrow> set_task_state h Sleeping w
      else w)"

text \<open>The sleep of task \<open>h\<close> returns.\<close>

definition wake_task :: "nat \<Rightarrow> world \<Rightarrow> world" where
  "wake_task h w =
     (if h < length (tasks w) \<and> state (tasks w ! h) = Sleeping
      then case kind (tasks w ! h) of
             WatchdogPing \<Rightarrow> watchdog_ping h w
           | AutoStop d \<Rightarrow> auto_stop h w
           | ServiceStop d \<Rightarrow> stop_control h w
      else w)"

subsection \<open>The service handler \<^verbatim>\<open>_battery_control\<close>\<close>

text \<open>
  services.py, lines 63 to 105, for a call whose device is found: the debug record of
  the call, the five writes one after the other, then the detached
  \<^verbatim>\<open>stop_control\<close> task; any exception is raised again as a
  \<^verbatim>\<open>ServiceValidationError\<close>.
\<close>

definition battery_control :: "int \<Rightarrow> int \<Rightarrow> world \<Rightarrow> (error + unit) \<times> world" where
  "battery_control power_watts duration_minutes w =
     (let w0 = w\<lparr>log := log w @ [LogDebug]\<rparr>
      in case service_power_percentage power_watts (rated_power (rated_power_data w0)) of
        Inl e \<Rightarrow> (Inl (ServiceValidationError e), w0)
      | Inr pct \<Rightarrow>
         (case execute (dev w0) 0x10 0x044C [1] of
            (Inl e, d1) \<Rightarrow> (Inl (ServiceValidationError e), w0\<lparr>dev := d1\<rparr>)
          | (Inr _, d1) \<Rightarrow>
         (case execute d1 0x10 0x0450 [1] of
            (Inl e, d2) \<Rightarrow> (Inl (ServiceValidationError e), w0\<lparr>dev := d2\<rparr>)
          | (Inr _, d2) \<Rightarrow>
         (case execute d2 0x10 0x0451 [2] of
            (Inl e, d3) \<Rightarrow> (Inl (ServiceValidationError e), w0\<lparr>dev := d3\<rparr>)
          | (Inr _, d3) \<Rightarrow>
         (case execute d3 0x10 0x044D [300] of
            (Inl e, d4) \<Rightarrow> (Inl (ServiceValidationError e), w0\<lparr>dev := d4\<rparr>)
          | (Inr _, d4) \<Rightarrow>
         (case execute d4 0x10 0x0455 [pct] of
            (Inl e, d5) \<Rightarrow> (Inl (ServiceValidationError e), w0\<lparr>dev := d5\<rparr>)
          | (Inr _, d5) \<Rightarrow>
              (Inr (),
               w0\<lparr>dev := d5,
                  tasks := snd (create_task (ServiceStop duration_minutes) (tasks w0)),
                  log := log w0 @ [LogInfo]\<rparr>)))))))"


subsection \<open>Vocabulary of the properties\<close>

text \<open>The call that \<^verbatim>\<open>execute(0x10, address, data=[value])\<close> sends.\<close>

definition call_of :: "nat \<times> int \<Rightarrow> call" where
  "call_of r = (0x10, fst r, [snd r])"


definition is_auto_stop :: "task_kind \<Rightarrow> bool" where
  "is_auto_stop k = (case k of AutoStop d \<Rightarrow> True | _ \<Rightarrow> False)"

definition live_watchdogs :: "world \<Rightarrow> task list" where
  "live_watchdogs w = filter (\<lambda>t. kind t = WatchdogPing \<and> live t) (tasks w)"

definition live_deadlines :: "world \<Rightarrow> task list" where
  "live_deadlines w = filter (\<lambda>t. is_auto_stop (kind t) \<and> live t) (tasks w)"

text \<open>
  The timer invariant in the specification's words: an active session has exactly one
  live watchdog-refresh timer and exactly one live deadline timer, an inactive one has
  no live timer.
\<close>

definition timers_as_specified :: "world \<Rightarrow> bool" where
  "timers_as_specified w =
     (if control_active (mgr w)
      then length (live_watchdogs w) = 1 \<and> length (live_deadlines w) = 1
      else live_watchdogs w = [] \<and> live_deadlines w = [])"

subsection \<open>Concrete worlds\<close>

text \<open>
  A fresh manager on a device that answers as \<open>os\<close> says, rated power 20000 W in the
  telemetry; then the same with the two indicators registered; then the session that
  \<^verbatim>\<open>start_battery_control(5000, 10)\<close> opens on it, the switch entity turned on, and the
  device answering as \<open>os\<close> says from there on.
\<close>

definition fresh_world :: "error option list \<Rightarrow> world" where
  "fresh_world os =
     \<lparr>mgr = init_manager,
      dev = \<lparr>writes = [], outcomes = os\<rparr>,
      tasks = [],
      now = 63900000000,
      rated_power_data = Some [20000],
      log = []\<rparr>"

definition idle_world :: "error option list \<Rightarrow> world" where
  "idle_world os =
     (fresh_world os)
       \<lparr>mgr := register_virtual_entity ''Manual Control Active'' (VBool False)
                (register_virtual_entity ''Manual Battery Power'' (VNum 5000) init_manager)\<rparr>"

definition active_world :: "error option list \<Rightarrow> world" where
  "active_world os =
     (let w = snd (start_battery_control 5000 10 (idle_world []))
      in w\<lparr>mgr := register_virtual_entity ''Manual Control Active'' (VBool True) (mgr w),
           dev := (dev w)\<lparr>outcomes := os\<rparr>\<rparr>)"

text \<open>
  A restart: \<^verbatim>\<open>start_battery_control(5000, 1)\<close> on the idle world, the event loop
  runs its two tasks up to their sleeps; 30 seconds later
  \<^verbatim>\<open>start_battery_control(3000, 10)\<close>, and the event loop runs the two new tasks up
  to their sleeps. The device answers every write.
\<close>

definition restarted_world :: world where
  "restarted_world =
     (let w1 = snd (start_battery_control 5000 1 (idle_world []));
          w2 = run_task 1 (run_task 0 w1);
          w3 = snd (start_battery_control 3000 10 (w2\<lparr>now := now w2 + 30\<rparr>))
      in run_task 3 (run_task 2 w3))"


section \<open>Properties\<close>

subsection \<open>The number model\<close>





lemmas float_eval = float_of_ratio_def round53_def scaled_def round_half_even_def bit_length.simps
  Let_def








lemma power_percentage_zero_division:
  "power_percentage p r = Inl ZeroDivisionError \<Longrightarrow> r = 0"
proof (rule ccontr)
  assume a: "power_percentage p r = Inl ZeroDivisionError" and r: "r \<noteq> 0"
  show False
  proof (cases "truediv p r")
    case (Inl e)
    with r have "e = OverflowError" by (auto simp: truediv_def split: float64.splits)
    with a Inl show False by (simp add: power_percentage_def)
  next
    case (Inr f)
    with a have "py_int (fmul f 1000) = Inl ZeroDivisionError"
      by (auto simp: power_percentage_def split: sum.splits)
    then show False by (cases "fmul f 1000") simp_all
  qed
qed



















subsection \<open>Writes, cancellation, stop\<close>

lemma stop_inactive: "\<not> control_active (mgr w) \<Longrightarrow> stop_battery_control w = w"
  by (simp add: stop_battery_control_def)

lemma execute_writes: "writes (snd (execute dv c a ds)) = writes dv @ [(c, a, ds)]"
  by (simp add: execute_def split: list.splits option.splits)

lemma write_registers_ok:
  "write_registers rs dv = (Inr u, dv') \<Longrightarrow> writes dv' = writes dv @ map call_of rs"
proof (induction rs arbitrary: dv)
  case Nil
  then show ?case by simp
next
  case (Cons r rs)
  obtain a v where r: "r = (a, v)" by (cases r)
  obtain res d1 where ex: "execute dv 0x10 a [v] = (res, d1)" by (cases "execute dv 0x10 a [v]")
  from Cons.prems r ex obtain u1 where res: "res = Inr u1" by (cases res) auto
  from Cons.prems r ex res have "write_registers rs d1 = (Inr u, dv')" by simp
  from Cons.IH [OF this] have "writes dv' = writes d1 @ map call_of rs" .
  moreover from execute_writes [of dv "0x10" a "[v]"] ex
  have "writes d1 = writes dv @ [(0x10, a, [v])]" by simp
  ultimately show ?case by (simp add: r call_of_def)
qed

lemma write_registers_fail:
  "write_registers rs dv = (Inl e, dv') \<Longrightarrow>
     \<exists>n < length rs. writes dv' = writes dv @ map call_of (take (Suc n) rs)"
proof (induction rs arbitrary: dv)
  case Nil
  then show ?case by simp
next
  case (Cons r rs)
  obtain a v where r: "r = (a, v)" by (cases r)
  obtain res d1 where ex: "execute dv 0x10 a [v] = (res, d1)" by (cases "execute dv 0x10 a [v]")
  from execute_writes [of dv "0x10" a "[v]"] ex
  have w1: "writes d1 = writes dv @ [(0x10, a, [v])]" by simp
  show ?case
  proof (cases res)
    case (Inl e')
    with Cons.prems r ex have "dv' = d1" by simp
    with w1 have "writes dv' = writes dv @ map call_of (take (Suc 0) (r # rs))"
      by (simp add: r call_of_def)
    then show ?thesis by blast
  next
    case (Inr u1)
    with Cons.prems r ex have "write_registers rs d1 = (Inl e, dv')" by simp
    from Cons.IH [OF this] obtain n where n: "n < length rs"
      and "writes dv' = writes d1 @ map call_of (take (Suc n) rs)" by blast
    with w1 have "writes dv' = writes dv @ map call_of (take (Suc (Suc n)) (r # rs))"
      by (simp add: r call_of_def)
    with n show ?thesis by (intro exI [of _ "Suc n"]) simp
  qed
qed

lemma length_cancel [simp]: "length (cancel h ts) = length ts"
  by (simp add: cancel_def)

lemma kind_cancel [simp]: "i < length ts \<Longrightarrow> kind (cancel h ts ! i) = kind (ts ! i)"
  by (simp add: cancel_def nth_list_update)

lemma live_cancel: "i < length ts \<Longrightarrow> live (cancel h ts ! i) = (live (ts ! i) \<and> i \<noteq> h)"
  by (auto simp: cancel_def nth_list_update live_def)

lemma state_cancel_other: "i < length ts \<Longrightarrow> i \<noteq> h \<Longrightarrow> state (cancel h ts ! i) = state (ts ! i)"
  by (simp add: cancel_def nth_list_update)

text \<open>What stop does to the manager and the tasks, whatever the device answers.\<close>

lemma stop_tasks:
  "tasks (stop_battery_control w) =
     (if control_active (mgr w)
      then (case watchdog_task (mgr w) of None \<Rightarrow> tasks w | Some h \<Rightarrow> cancel h (tasks w))
      else tasks w)"
  by (simp add: stop_battery_control_def Let_def split: prod.splits sum.splits option.splits)

lemma stop_mgr:
  "mgr (stop_battery_control w) = mgr w
   \<or> control_active (mgr w) \<and>
     mgr (stop_battery_control w) =
       (mgr w)\<lparr>control_active := False, control_end_time := None,
               virtual_entities := reset_virtual_entities (virtual_entities (mgr w))\<rparr>"
  by (simp add: stop_battery_control_def Let_def split: prod.splits sum.splits option.splits)

lemma stop_watchdog_task [simp]:
  "watchdog_task (mgr (stop_battery_control w)) = watchdog_task (mgr w)"
  using stop_mgr [of w] by auto

lemma stop_env [simp]:
  "now (stop_battery_control w) = now w"
  "rated_power_data (stop_battery_control w) = rated_power_data w"
  by (simp_all add: stop_battery_control_def Let_def split: prod.splits sum.splits option.splits)

lemma stop_active_mgr:
  "control_active (mgr (stop_battery_control w)) \<Longrightarrow> mgr (stop_battery_control w) = mgr w"
  using stop_mgr [of w] by auto

lemma length_stop [simp]: "length (tasks (stop_battery_control w)) = length (tasks w)"
  by (simp add: stop_tasks split: option.splits)

lemma kind_stop [simp]:
  "i < length (tasks w) \<Longrightarrow> kind (tasks (stop_battery_control w) ! i) = kind (tasks w ! i)"
  by (simp add: stop_tasks split: option.splits)


subsection \<open>Start\<close>

lemma start_try_ok:
  assumes "start_try p d w = (Inr u, w')"
  shows "\<exists>pct t dv.
           power_percentage p (rated_power (rated_power_data w)) = Inr pct
         \<and> write_registers (registers pct) (dev w) = (Inr (), dv)
         \<and> end_time (now w) d = Inr t
         \<and> mgr w' = (mgr w)\<lparr>control_active := True, control_end_time := Some t,
                              watchdog_task := Some (length (tasks w))\<rparr>
         \<and> dev w' = dv
         \<and> tasks w' = tasks w @ [\<lparr>kind = WatchdogPing, state = Created\<rparr>,
                                   \<lparr>kind = AutoStop d, state = Created\<rparr>]
         \<and> now w' = now w \<and> rated_power_data w' = rated_power_data w
         \<and> log w' = log w @ [LogInfo]"
  using assms
  by (auto simp: start_try_def Let_def create_task_def split: sum.splits prod.splits)

lemma start_try_fail:
  assumes "start_try p d w = (Inl e, w')"
  shows "tasks w' = tasks w \<and> now w' = now w \<and> rated_power_data w' = rated_power_data w
         \<and> (mgr w' = mgr w \<or> mgr w' = (mgr w)\<lparr>control_active := True\<rparr>)"
  using assms
  by (auto simp: start_try_def Let_def create_task_def split: sum.splits prod.splits)

lemma start_try_fail_write:
  assumes "power_percentage p (rated_power (rated_power_data w)) = Inr pct"
      and "write_registers (registers pct) (dev w) = (Inl e, dv)"
  shows "start_try p d w = (Inl e, w\<lparr>dev := dv\<rparr>)"
  using assms by (simp add: start_try_def)

text \<open>Start on an idle session whose try block fails: stop returns at once.\<close>

lemma start_idle_fail:
  assumes "\<not> control_active (mgr w)" and "start_try p d w = (Inl e, w')"
      and "\<not> control_active (mgr w')"
  shows "start_battery_control p d w = (Inl e, w'\<lparr>log := log w' @ [LogError e]\<rparr>)"
  using assms by (simp add: start_battery_control_def stop_battery_control_def)

lemma start_ok:
  assumes "fst (start_battery_control p d w) = Inr u"
  shows "start_try p d (stop_battery_control w) = (Inr (), snd (start_battery_control p d w))"
proof (cases "control_active (mgr w)")
  case True
  with assms show ?thesis
    by (auto simp: start_battery_control_def Let_def split: prod.splits sum.splits)
next
  case False
  with assms show ?thesis
    by (auto simp: start_battery_control_def Let_def stop_inactive split: prod.splits sum.splits)
qed

lemma start_eq:
  "start_battery_control p d w =
     (case start_try p d (stop_battery_control w) of
        (Inr _, w') \<Rightarrow> (Inr (), w')
      | (Inl e, w') \<Rightarrow> (Inl e, stop_battery_control (w'\<lparr>log := log w' @ [LogError e]\<rparr>)))"
  by (cases "control_active (mgr w)") (simp_all add: start_battery_control_def stop_inactive)


subsection \<open>The concrete worlds, evaluated\<close>

lemma pp_5000: "power_percentage 5000 20000 = Inr 250"
  by (simp add: power_percentage_def truediv_def float_eval)

lemma pp_3000: "power_percentage 3000 20000 = Inr 150"
  by (simp add: power_percentage_def truediv_def float_eval)

lemmas world_eval = fresh_world_def idle_world_def start_battery_control_def start_try_def
  stop_battery_control_def rated_power_def registers_def reset_registers_def execute_def
  init_manager_def register_virtual_entity_def end_time_def create_task_def cancel_def live_def
  reset_virtual_entities_def Let_def

lemma start_idle_world:
  "start_battery_control 5000 10 (idle_world []) =
     (Inr (),
      \<lparr>mgr = \<lparr>control_active = True, control_end_time = Some 63900000600,
               watchdog_task = Some 0,
               virtual_entities = [''Manual Battery Power'' \<mapsto> VNum 5000,
                                   ''Manual Control Active'' \<mapsto> VBool False]\<rparr>,
       dev = \<lparr>writes = [(0x10, 0x044C, [1]), (0x10, 0x0450, [1]), (0x10, 0x0451, [2]),
                          (0x10, 0x044D, [300]), (0x10, 0x0455, [250])],
               outcomes = []\<rparr>,
       tasks = [\<lparr>kind = WatchdogPing, state = Created\<rparr>, \<lparr>kind = AutoStop 10, state = Created\<rparr>],
       now = 63900000000,
       rated_power_data = Some [20000],
       log = [LogInfo]\<rparr>)"
  by (simp add: world_eval pp_5000)

lemma active_world_eq:
  "active_world os =
      \<lparr>mgr = \<lparr>control_active = True, control_end_time = Some 63900000600,
               watchdog_task = Some 0,
               virtual_entities = [''Manual Battery Power'' \<mapsto> VNum 5000,
                                   ''Manual Control Active'' \<mapsto> VBool True]\<rparr>,
       dev = \<lparr>writes = [(0x10, 0x044C, [1]), (0x10, 0x0450, [1]), (0x10, 0x0451, [2]),
                          (0x10, 0x044D, [300]), (0x10, 0x0455, [250])],
               outcomes = os\<rparr>,
       tasks = [\<lparr>kind = WatchdogPing, state = Created\<rparr>, \<lparr>kind = AutoStop 10, state = Created\<rparr>],
       now = 63900000000,
       rated_power_data = Some [20000],
       log = [LogInfo]\<rparr>"
  by (simp add: active_world_def start_idle_world register_virtual_entity_def)

lemma stop_active_world:
  "stop_battery_control (active_world []) =
      \<lparr>mgr = \<lparr>control_active = False, control_end_time = None,
               watchdog_task = Some 0,
               virtual_entities = [''Manual Battery Power'' \<mapsto> VNum 0,
                                   ''Manual Control Active'' \<mapsto> VBool False]\<rparr>,
       dev = \<lparr>writes = [(0x10, 0x044C, [1]), (0x10, 0x0450, [1]), (0x10, 0x0451, [2]),
                          (0x10, 0x044D, [300]), (0x10, 0x0455, [250]),
                          (0x10, 0x044C, [0]), (0x10, 0x0455, [0])],
               outcomes = []\<rparr>,
       tasks = [\<lparr>kind = WatchdogPing, state = Cancelled\<rparr>, \<lparr>kind = AutoStop 10, state = Created\<rparr>],
       now = 63900000000,
       rated_power_data = Some [20000],
       log = [LogInfo, LogInfo]\<rparr>"
  by (simp add: active_world_eq stop_battery_control_def reset_registers_def execute_def
      cancel_def live_def reset_virtual_entities_def)

lemma restart_active_world:
  "start_battery_control 3000 5 (active_world []) =
     (Inr (),
      \<lparr>mgr = \<lparr>control_active = True, control_end_time = Some 63900000300,
               watchdog_task = Some 2,
               virtual_entities = [''Manual Battery Power'' \<mapsto> VNum 0,
                                   ''Manual Control Active'' \<mapsto> VBool False]\<rparr>,
       dev = \<lparr>writes = [(0x10, 0x044C, [1]), (0x10, 0x0450, [1]), (0x10, 0x0451, [2]),
                          (0x10, 0x044D, [300]), (0x10, 0x0455, [250]),
                          (0x10, 0x044C, [0]), (0x10, 0x0455, [0]),
                          (0x10, 0x044C, [1]), (0x10, 0x0450, [1]), (0x10, 0x0451, [2]),
                          (0x10, 0x044D, [300]), (0x10, 0x0455, [150])],
               outcomes = []\<rparr>,
       tasks = [\<lparr>kind = WatchdogPing, state = Cancelled\<rparr>, \<lparr>kind = AutoStop 10, state = Created\<rparr>,
                \<lparr>kind = WatchdogPing, state = Created\<rparr>, \<lparr>kind = AutoStop 5, state = Created\<rparr>],
       now = 63900000000,
       rated_power_data = Some [20000],
       log = [LogInfo, LogInfo, LogInfo]\<rparr>)"
proof -
  have "control_active (mgr (active_world []))" by (simp add: active_world_eq)
  then show ?thesis
    unfolding start_battery_control_def Let_def
    by (simp add: stop_active_world start_try_def rated_power_def pp_3000 registers_def
        execute_def end_time_def create_task_def)
qed

subsection \<open>C1: a register write of Start fails\<close>

text \<open>
  C1. The claim: when a register write of a Start that begins in Idle fails (here the
  last one, to 0x0455), the remaining writes are aborted, the resets \<open>(0x044C, 0)\<close> and
  \<open>(0x0455, 0)\<close> are then issued, the session ends Idle and the error reaches the caller.
  The code, on an idle session whose device fails the fifth write: the error reaches
  the caller and the session is Idle, but the device has received the five set-up
  writes and nothing after them. \<^verbatim>\<open>stop_battery_control\<close>, called by the handler,
  returns at its first line since \<^verbatim>\<open>control_active\<close> is still False.
\<close>

theorem start_write_failure_issues_no_reset:
  "fst (start_battery_control 5000 10
          (idle_world [None, None, None, None, Some (CommunicationError 110)]))
     = Inl (CommunicationError 110)
   \<and> writes (dev (snd (start_battery_control 5000 10
          (idle_world [None, None, None, None, Some (CommunicationError 110)]))))
     = [(0x10, 0x044C, [1]), (0x10, 0x0450, [1]), (0x10, 0x0451, [2]),
        (0x10, 0x044D, [300]), (0x10, 0x0455, [250])]
   \<and> \<not> control_active (mgr (snd (start_battery_control 5000 10
          (idle_world [None, None, None, None, Some (CommunicationError 110)]))))
   \<and> tasks (snd (start_battery_control 5000 10
          (idle_world [None, None, None, None, Some (CommunicationError 110)]))) = []"
  by (simp add: world_eval pp_5000)

subsection \<open>C2: Stop when a reset write fails\<close>

text \<open>
  C2. The claim: Stop on an Active session never raises, and on return the session state
  is cleared and the indicators are inactive and zero, whether the reset writes succeeded
  or not. The code, on the active session whose device fails the first reset write:
  Stop returns, but \<^verbatim>\<open>control_active\<close> is still True, the end time is still set, both
  indicators keep their values, and the watchdog task has been cancelled.
\<close>

theorem stop_write_failure_stays_active:
  "control_active (mgr (stop_battery_control (active_world [Some (CommunicationError 110)])))
   \<and> control_end_time (mgr (stop_battery_control (active_world [Some (CommunicationError 110)])))
       = Some 63900000600
   \<and> virtual_entities (mgr (stop_battery_control (active_world [Some (CommunicationError 110)])))
       ''Manual Control Active'' = Some (VBool True)
   \<and> virtual_entities (mgr (stop_battery_control (active_world [Some (CommunicationError 110)])))
       ''Manual Battery Power'' = Some (VNum 5000)
   \<and> tasks (stop_battery_control (active_world [Some (CommunicationError 110)]))
       = [\<lparr>kind = WatchdogPing, state = Cancelled\<rparr>, \<lparr>kind = AutoStop 10, state = Created\<rparr>]
   \<and> log (stop_battery_control (active_world [Some (CommunicationError 110)]))
       = [LogInfo, LogError (CommunicationError 110)]"
  by (simp add: active_world_eq stop_battery_control_def reset_registers_def execute_def
      cancel_def live_def)

subsection \<open>C9: Stop on an idle session, Stop twice\<close>

text \<open>Stop on an idle session changes nothing: no write, no indicator, no error.\<close>

lemma stop_idle_noop:
  "\<not> control_active (mgr w) \<Longrightarrow> stop_battery_control w = w"
  by (rule stop_inactive)

text \<open>
  C9. The claim: Stop on an Idle session is a no-op, and consequently two Stop calls in
  immediate succession issue the reset writes at most once. The first half holds
  (\<open>stop_idle_noop\<close>). The code, on the active session whose device fails the second
  reset write, then answers: the first Stop leaves the session active, so the second
  Stop issues both reset writes again.
\<close>

theorem stop_twice_repeats_resets:
  "writes (dev (stop_battery_control (stop_battery_control
       (active_world [None, Some (CommunicationError 110)]))))
     = [(0x10, 0x044C, [1]), (0x10, 0x0450, [1]), (0x10, 0x0451, [2]),
        (0x10, 0x044D, [300]), (0x10, 0x0455, [250]),
        (0x10, 0x044C, [0]), (0x10, 0x0455, [0]),
        (0x10, 0x044C, [0]), (0x10, 0x0455, [0])]
   \<and> control_active (mgr (stop_battery_control
       (active_world [None, Some (CommunicationError 110)])))
   \<and> \<not> control_active (mgr (stop_battery_control (stop_battery_control
       (active_world [None, Some (CommunicationError 110)]))))"
  by (simp add: active_world_eq stop_battery_control_def reset_registers_def execute_def
      cancel_def live_def)


subsection \<open>C7: the writes of a successful Start\<close>

lemma end_time_ok: "end_time t d = Inr t' \<Longrightarrow> t' = t + 60 * d"
  by (simp add: end_time_def Let_def split: if_splits)

text \<open>What a successful Start leaves, in terms of the world after its Stop sequence.\<close>

lemma start_success:
  assumes "fst (start_battery_control p d w) = Inr ()"
  shows "\<exists>pct. power_percentage p (rated_power (rated_power_data w)) = Inr pct
         \<and> writes (dev (snd (start_battery_control p d w)))
             = writes (dev (stop_battery_control w)) @ map call_of (registers pct)
         \<and> mgr (snd (start_battery_control p d w))
             = (mgr (stop_battery_control w))
                 \<lparr>control_active := True, control_end_time := Some (now w + 60 * d),
                  watchdog_task := Some (length (tasks w))\<rparr>
         \<and> tasks (snd (start_battery_control p d w))
             = tasks (stop_battery_control w)
               @ [\<lparr>kind = WatchdogPing, state = Created\<rparr>, \<lparr>kind = AutoStop d, state = Created\<rparr>]"
proof -
  let ?w0 = "stop_battery_control w"
  let ?w' = "snd (start_battery_control p d w)"
  from start_ok [OF assms] have st: "start_try p d ?w0 = (Inr (), ?w')" .
  from start_try_ok [OF st] obtain pct t dv where
    pp: "power_percentage p (rated_power (rated_power_data ?w0)) = Inr pct"
    and wr: "write_registers (registers pct) (dev ?w0) = (Inr (), dv)"
    and et: "end_time (now ?w0) d = Inr t"
    and m: "mgr ?w' = (mgr ?w0)\<lparr>control_active := True, control_end_time := Some t,
                                  watchdog_task := Some (length (tasks ?w0))\<rparr>"
    and dv: "dev ?w' = dv"
    and ts: "tasks ?w' = tasks ?w0 @ [\<lparr>kind = WatchdogPing, state = Created\<rparr>,
                                      \<lparr>kind = AutoStop d, state = Created\<rparr>]"
    by blast
  from end_time_ok [OF et] have t: "t = now w + 60 * d" by simp
  from write_registers_ok [OF wr] dv
  have "writes (dev ?w') = writes (dev ?w0) @ map call_of (registers pct)" by simp
  with pp m ts t show ?thesis by simp
qed

text \<open>
  C7. A successful \<^verbatim>\<open>start_battery_control(5000, 10)\<close> with rated power 20000 issues,
  after the resets of its Stop sequence if a session was running (none on an idle
  session), exactly the writes (0x044C,1), (0x0450,1), (0x0451,2), (0x044D,300),
  (0x0455,250) in this order; the session is then active, its end time is 600 seconds
  (10 minutes) after now, and one watchdog task and one auto-stop task of 10 minutes
  have been created.
\<close>

theorem start_5000_10_write_sequence:
  assumes "rated_power (rated_power_data w) = 20000"
      and "fst (start_battery_control 5000 10 w) = Inr ()"
  shows "writes (dev (snd (start_battery_control 5000 10 w)))
           = writes (dev (stop_battery_control w))
             @ [(0x10, 0x044C, [1]), (0x10, 0x0450, [1]), (0x10, 0x0451, [2]),
                (0x10, 0x044D, [300]), (0x10, 0x0455, [250])]
       \<and> (\<not> control_active (mgr w) \<longrightarrow>
            writes (dev (snd (start_battery_control 5000 10 w)))
              = writes (dev w)
                @ [(0x10, 0x044C, [1]), (0x10, 0x0450, [1]), (0x10, 0x0451, [2]),
                   (0x10, 0x044D, [300]), (0x10, 0x0455, [250])])
       \<and> control_active (mgr (snd (start_battery_control 5000 10 w)))
       \<and> control_end_time (mgr (snd (start_battery_control 5000 10 w))) = Some (now w + 600)
       \<and> tasks (snd (start_battery_control 5000 10 w))
           = tasks (stop_battery_control w)
             @ [\<lparr>kind = WatchdogPing, state = Created\<rparr>, \<lparr>kind = AutoStop 10, state = Created\<rparr>]"
proof -
  from start_success [OF assms(2)] assms(1) pp_5000
  have w: "writes (dev (snd (start_battery_control 5000 10 w)))
             = writes (dev (stop_battery_control w)) @ map call_of (registers 250)"
    and m: "mgr (snd (start_battery_control 5000 10 w))
             = (mgr (stop_battery_control w))
                 \<lparr>control_active := True, control_end_time := Some (now w + 60 * 10),
                  watchdog_task := Some (length (tasks w))\<rparr>"
    and t: "tasks (snd (start_battery_control 5000 10 w))
             = tasks (stop_battery_control w)
               @ [\<lparr>kind = WatchdogPing, state = Created\<rparr>, \<lparr>kind = AutoStop 10, state = Created\<rparr>]"
    by auto
  have r: "map call_of (registers 250)
             = [(0x10, 0x044C, [1]), (0x10, 0x0450, [1]), (0x10, 0x0451, [2]),
                (0x10, 0x044D, [300]), (0x10, 0x0455, [250])]"
    by (simp add: registers_def call_of_def)
  from w r m t show ?thesis by (simp add: stop_inactive)
qed

theorem start_5000_10_write_sequence_witness:
  "rated_power (rated_power_data (idle_world [])) = 20000
   \<and> fst (start_battery_control 5000 10 (idle_world [])) = Inr ()
   \<and> \<not> control_active (mgr (idle_world []))
   \<and> writes (dev (snd (start_battery_control 5000 10 (idle_world []))))
       = [(0x10, 0x044C, [1]), (0x10, 0x0450, [1]), (0x10, 0x0451, [2]),
          (0x10, 0x044D, [300]), (0x10, 0x0455, [250])]
   \<and> control_active (mgr (snd (start_battery_control 5000 10 (idle_world []))))
   \<and> control_end_time (mgr (snd (start_battery_control 5000 10 (idle_world []))))
       = Some (63900000000 + 600)"
proof -
  have r: "rated_power (rated_power_data (idle_world [])) = 20000"
    by (simp add: idle_world_def fresh_world_def rated_power_def)
  have s: "fst (start_battery_control 5000 10 (idle_world [])) = Inr ()"
    by (simp add: start_idle_world)
  have i: "\<not> control_active (mgr (idle_world []))" "writes (dev (idle_world [])) = []"
    "now (idle_world []) = 63900000000"
    by (simp_all add: idle_world_def fresh_world_def init_manager_def register_virtual_entity_def)
  from start_5000_10_write_sequence [OF r s] r s i show ?thesis by (simp add: stop_inactive)
qed

subsection \<open>C8: the watchdog tick\<close>

lemma watchdog_continue_cong:
  "mgr w' = mgr w \<Longrightarrow> now w' = now w \<Longrightarrow> watchdog_continue w' = watchdog_continue w"
  by (simp add: watchdog_continue_def split: option.splits)

text \<open>One tick of a sleeping watchdog task on an active session.\<close>

lemma wake_watchdog:
  assumes "h < length (tasks w)" and "kind (tasks w ! h) = WatchdogPing"
      and "state (tasks w ! h) = Sleeping" and "control_active (mgr w)"
  shows "writes (dev (wake_task h w)) = writes (dev w) @ [(0x10, 0x044C, [1])]"
    and "outcomes (dev (wake_task h w)) = tl (outcomes (dev w))"
    and "mgr (wake_task h w) = mgr w"
    and "now (wake_task h w) = now w"
    and "tasks (wake_task h w)
           = (tasks w)[h := (tasks w ! h)\<lparr>state := (if watchdog_continue w then Sleeping else Finished)\<rparr>]"
    and "log (wake_task h w)
           = log w @ [case fst (execute (dev w) 0x10 0x044C [1]) of
                        Inl e \<Rightarrow> LogError e | Inr _ \<Rightarrow> LogDebug]"
proof -
  obtain res dv where ex: "execute (dev w) 0x10 0x044C [1] = (res, dv)"
    by (cases "execute (dev w) 0x10 0x044C [1]")
  define w1 where "w1 = w\<lparr>dev := dv, log := log w @ [case res of Inl e \<Rightarrow> LogError e | Inr _ \<Rightarrow> LogDebug]\<rparr>"
  have c: "watchdog_continue w1 = watchdog_continue w"
    by (rule watchdog_continue_cong) (simp_all add: w1_def)
  have eq: "wake_task h w
              = set_task_state h (if watchdog_continue w then Sleeping else Finished) w1"
    using assms ex c [symmetric]
    by (cases res) (simp_all add: wake_task_def watchdog_ping_def Let_def w1_def)
  from execute_writes [of "dev w" "0x10" "0x044C" "[1]"] ex
  have wr: "writes dv = writes (dev w) @ [(0x10, 0x044C, [1])]" by simp
  from ex have oc: "outcomes dv = tl (outcomes (dev w))"
    by (auto simp: execute_def split: list.splits option.splits)
  show "writes (dev (wake_task h w)) = writes (dev w) @ [(0x10, 0x044C, [1])]"
    by (simp add: eq set_task_state_def w1_def wr)
  show "outcomes (dev (wake_task h w)) = tl (outcomes (dev w))"
    by (simp add: eq set_task_state_def w1_def oc)
  show "mgr (wake_task h w) = mgr w" by (simp add: eq set_task_state_def w1_def)
  show "now (wake_task h w) = now w" by (simp add: eq set_task_state_def w1_def)
  show "tasks (wake_task h w)
           = (tasks w)[h := (tasks w ! h)\<lparr>state := (if watchdog_continue w then Sleeping else Finished)\<rparr>]"
    by (simp add: eq set_task_state_def w1_def)
  show "log (wake_task h w)
           = log w @ [case fst (execute (dev w) 0x10 0x044C [1]) of
                        Inl e \<Rightarrow> LogError e | Inr _ \<Rightarrow> LogDebug]"
    by (simp add: eq set_task_state_def w1_def ex)
qed

text \<open>
  C8. While the session is active and the end time is not reached
  (\<open>watchdog_continue\<close>), a tick of the sleeping watchdog task issues exactly one write,
  (0x044C, 1), and no other; it leaves the manager's state as it is and the task
  asleep for the next tick, whether the write succeeded or failed. A failed write is
  logged as an error, and the next tick writes (0x044C, 1) again.
\<close>

theorem watchdog_tick_refreshes_only:
  assumes "h < length (tasks w)" and "kind (tasks w ! h) = WatchdogPing"
      and "state (tasks w ! h) = Sleeping" and "watchdog_continue w"
  shows "writes (dev (wake_task h w)) = writes (dev w) @ [(0x10, 0x044C, [1])]
       \<and> mgr (wake_task h w) = mgr w
       \<and> tasks (wake_task h w) = tasks w
       \<and> (\<forall>e. fst (execute (dev w) 0x10 0x044C [1]) = Inl e \<longrightarrow>
             log (wake_task h w) = log w @ [LogError e])
       \<and> writes (dev (wake_task h (wake_task h w)))
           = writes (dev w) @ [(0x10, 0x044C, [1]), (0x10, 0x044C, [1])]"
proof -
  from assms(4) have a: "control_active (mgr w)" by (simp add: watchdog_continue_def)
  note one = wake_watchdog [OF assms(1-3) a]
  from one(5) assms have ts: "tasks (wake_task h w) = tasks w"
    by (simp add: list_update_same_conv)
  have c: "watchdog_continue (wake_task h w)"
    using assms(4) watchdog_continue_cong [OF one(3) one(4)] by simp
  then have a': "control_active (mgr (wake_task h w))" by (simp add: watchdog_continue_def)
  from assms(1-3) ts have pre: "h < length (tasks (wake_task h w))"
    "kind (tasks (wake_task h w) ! h) = WatchdogPing"
    "state (tasks (wake_task h w) ! h) = Sleeping" by simp_all
  note two = wake_watchdog [OF pre a']
  from one(1) one(3) ts one(6) two(1) show ?thesis by simp
qed

theorem watchdog_tick_refreshes_only_witness:
  "1 < length (tasks (run_task 0 (active_world [Some (CommunicationError 110)])))
   \<and> kind (tasks (run_task 0 (active_world [Some (CommunicationError 110)])) ! 0) = WatchdogPing
   \<and> state (tasks (run_task 0 (active_world [Some (CommunicationError 110)])) ! 0) = Sleeping
   \<and> watchdog_continue (run_task 0 (active_world [Some (CommunicationError 110)]))
   \<and> writes (dev (wake_task 0 (run_task 0 (active_world [Some (CommunicationError 110)]))))
       = writes (dev (active_world [])) @ [(0x10, 0x044C, [1])]
   \<and> control_active (mgr (wake_task 0 (run_task 0 (active_world [Some (CommunicationError 110)]))))
   \<and> log (wake_task 0 (run_task 0 (active_world [Some (CommunicationError 110)])))
       = [LogInfo, LogError (CommunicationError 110)]
   \<and> writes (dev (wake_task 0 (wake_task 0
         (run_task 0 (active_world [Some (CommunicationError 110)])))))
       = writes (dev (active_world [])) @ [(0x10, 0x044C, [1]), (0x10, 0x044C, [1])]"
proof -
  let ?w = "run_task 0 (active_world [Some (CommunicationError 110)])"
  have w: "?w = (active_world [Some (CommunicationError 110)])
                  \<lparr>tasks := [\<lparr>kind = WatchdogPing, state = Sleeping\<rparr>,
                             \<lparr>kind = AutoStop 10, state = Created\<rparr>]\<rparr>"
    by (simp add: active_world_eq run_task_def watchdog_continue_def set_task_state_def)
  have pre: "0 < length (tasks ?w)" "kind (tasks ?w ! 0) = WatchdogPing"
    "state (tasks ?w ! 0) = Sleeping" "watchdog_continue ?w"
    unfolding w by (simp_all add: active_world_eq watchdog_continue_def)
  have ex: "fst (execute (dev ?w) 0x10 0x044C [1]) = Inl (CommunicationError 110)"
    unfolding w by (simp add: active_world_eq execute_def)
  have f: "writes (dev ?w) = writes (dev (active_world []))" "log ?w = [LogInfo]"
    "control_active (mgr ?w)" "length (tasks ?w) = 2"
    unfolding w by (simp_all add: active_world_eq)
  from watchdog_tick_refreshes_only [OF pre] pre ex f show ?thesis by simp
qed


subsection \<open>C10: the service handler against the manager\<close>

text \<open>The five calls of the handler are the loop of the manager over \<open>registers\<close>.\<close>

lemma battery_control_eq:
  "battery_control p d w =
     (case service_power_percentage p (rated_power (rated_power_data w)) of
        Inl e \<Rightarrow> (Inl (ServiceValidationError e), w\<lparr>log := log w @ [LogDebug]\<rparr>)
      | Inr pct \<Rightarrow>
         (case write_registers (registers pct) (dev w) of
            (Inl e, dv) \<Rightarrow>
              (Inl (ServiceValidationError e), w\<lparr>dev := dv, log := log w @ [LogDebug]\<rparr>)
          | (Inr _, dv) \<Rightarrow>
              (Inr (),
               w\<lparr>dev := dv,
                 tasks := tasks w @ [\<lparr>kind = ServiceStop d, state = Created\<rparr>],
                 log := log w @ [LogDebug, LogInfo]\<rparr>)))"
  by (simp add: battery_control_def Let_def registers_def create_task_def
      split: sum.splits prod.splits)

lemma battery_control_mgr [simp]: "mgr (snd (battery_control p d w)) = mgr w"
  by (simp add: battery_control_eq split: sum.splits prod.splits)

lemma service_power_percentage_eq: "service_power_percentage p r = power_percentage p r"
  by (simp add: service_power_percentage_def power_percentage_def)

lemma battery_control_success:
  assumes "fst (battery_control p d w) = Inr ()"
  shows "\<exists>pct dv. power_percentage p (rated_power (rated_power_data w)) = Inr pct
           \<and> write_registers (registers pct) (dev w) = (Inr (), dv)
           \<and> dev (snd (battery_control p d w)) = dv
           \<and> tasks (snd (battery_control p d w))
               = tasks w @ [\<lparr>kind = ServiceStop d, state = Created\<rparr>]"
  using assms
  by (auto simp: battery_control_eq service_power_percentage_eq split: sum.splits prod.splits)

text \<open>Start on an idle session whose set-up and end time go through.\<close>

lemma start_idle_success:
  assumes "\<not> control_active (mgr w)"
      and "power_percentage p (rated_power (rated_power_data w)) = Inr pct"
      and "write_registers (registers pct) (dev w) = (Inr (), dv)"
      and "end_time (now w) d = Inr t"
  shows "fst (start_battery_control p d w) = Inr ()"
    and "dev (snd (start_battery_control p d w)) = dv"
  using assms
  by (simp_all add: start_battery_control_def start_try_def Let_def create_task_def)

text \<open>
  C10. For every \<open>power_watts\<close> and every rated-power reading the service handler
  \<^verbatim>\<open>_battery_control\<close> computes the power percentage of
  \<^verbatim>\<open>start_battery_control\<close>. When it succeeds it has issued exactly the five writes
  of \<open>registers\<close> with function code 0x10, in order; the manager, started on an idle
  session in the same world with a duration whose end time is a valid date, succeeds
  too and leaves the same write log. The handler never changes the manager's state: its
  only task is its own detached \<^verbatim>\<open>stop_control\<close>.
\<close>

theorem service_issues_manager_writes:
  "service_power_percentage p r = power_percentage p r
   \<and> mgr (snd (battery_control p d w)) = mgr w
   \<and> (fst (battery_control p d w) = Inr () \<longrightarrow>
        (\<exists>pct. power_percentage p (rated_power (rated_power_data w)) = Inr pct
           \<and> writes (dev (snd (battery_control p d w)))
               = writes (dev w) @ map call_of (registers pct)
           \<and> tasks (snd (battery_control p d w))
               = tasks w @ [\<lparr>kind = ServiceStop d, state = Created\<rparr>]
           \<and> (\<not> control_active (mgr w) \<and> 0 \<le> now w + 60 * d \<and> now w + 60 * d < 315537897600 \<longrightarrow>
                fst (start_battery_control p d w) = Inr ()
              \<and> writes (dev (snd (start_battery_control p d w)))
                  = writes (dev (snd (battery_control p d w))))))"
proof (intro conjI impI)
  show "service_power_percentage p r = power_percentage p r"
    by (rule service_power_percentage_eq)
  show "mgr (snd (battery_control p d w)) = mgr w" by simp
  assume ok: "fst (battery_control p d w) = Inr ()"
  from battery_control_success [OF ok] obtain pct dv where
    pp: "power_percentage p (rated_power (rated_power_data w)) = Inr pct"
    and wr: "write_registers (registers pct) (dev w) = (Inr (), dv)"
    and dv: "dev (snd (battery_control p d w)) = dv"
    and ts: "tasks (snd (battery_control p d w))
               = tasks w @ [\<lparr>kind = ServiceStop d, state = Created\<rparr>]"
    by blast
  from write_registers_ok [OF wr] dv
  have ws: "writes (dev (snd (battery_control p d w)))
              = writes (dev w) @ map call_of (registers pct)" by simp
  have st: "fst (start_battery_control p d w) = Inr ()
            \<and> writes (dev (snd (start_battery_control p d w)))
                = writes (dev (snd (battery_control p d w)))"
    if "\<not> control_active (mgr w) \<and> 0 \<le> now w + 60 * d \<and> now w + 60 * d < 315537897600"
  proof -
    from that have et: "end_time (now w) d = Inr (now w + 60 * d)"
      by (simp add: end_time_def)
    from that have idle: "\<not> control_active (mgr w)" by simp
    from start_idle_success [OF idle pp wr et] dv show ?thesis by simp
  qed
  from pp ws ts st
  show "\<exists>pct. power_percentage p (rated_power (rated_power_data w)) = Inr pct
           \<and> writes (dev (snd (battery_control p d w)))
               = writes (dev w) @ map call_of (registers pct)
           \<and> tasks (snd (battery_control p d w))
               = tasks w @ [\<lparr>kind = ServiceStop d, state = Created\<rparr>]
           \<and> (\<not> control_active (mgr w) \<and> 0 \<le> now w + 60 * d \<and> now w + 60 * d < 315537897600 \<longrightarrow>
                fst (start_battery_control p d w) = Inr ()
              \<and> writes (dev (snd (start_battery_control p d w)))
                  = writes (dev (snd (battery_control p d w))))"
    by blast
qed

lemma service_idle_world:
  "fst (battery_control 5000 10 (idle_world [])) = Inr ()"
  "writes (dev (snd (battery_control 5000 10 (idle_world []))))
     = [(0x10, 0x044C, [1]), (0x10, 0x0450, [1]), (0x10, 0x0451, [2]),
        (0x10, 0x044D, [300]), (0x10, 0x0455, [250])]"
  by (simp_all add: battery_control_def Let_def service_power_percentage_eq idle_world_def
      fresh_world_def rated_power_def pp_5000 execute_def create_task_def)

theorem service_issues_manager_writes_witness:
  "fst (battery_control 5000 10 (idle_world [])) = Inr ()
   \<and> \<not> control_active (mgr (idle_world []))
   \<and> mgr (snd (battery_control 5000 10 (idle_world []))) = mgr (idle_world [])
   \<and> writes (dev (snd (battery_control 5000 10 (idle_world []))))
       = [(0x10, 0x044C, [1]), (0x10, 0x0450, [1]), (0x10, 0x0451, [2]),
          (0x10, 0x044D, [300]), (0x10, 0x0455, [250])]
   \<and> fst (start_battery_control 5000 10 (idle_world [])) = Inr ()
   \<and> writes (dev (snd (start_battery_control 5000 10 (idle_world []))))
       = writes (dev (snd (battery_control 5000 10 (idle_world []))))"
proof -
  have i: "\<not> control_active (mgr (idle_world []))" "now (idle_world []) = 63900000000"
    by (simp_all add: idle_world_def fresh_world_def init_manager_def register_virtual_entity_def)
  from service_issues_manager_writes [of 5000 20000 10 "idle_world []"] service_idle_world i
  show ?thesis by auto
qed


subsection \<open>C6: Start on an active session\<close>

text \<open>
  When the Stop sequence that Start runs first clears the session, Start on an active
  session is Stop followed by Start with the same parameters.
\<close>

lemma start_active_is_stop_then_start:
  assumes "\<not> control_active (mgr (stop_battery_control w))"
  shows "start_battery_control p d w = start_battery_control p d (stop_battery_control w)"
proof -
  have "stop_battery_control (stop_battery_control w) = stop_battery_control w"
    using assms by (rule stop_inactive)
  then show ?thesis
    by (simp add: start_eq [of p d w] start_eq [of p d "stop_battery_control w"])
qed

lemma start_5000_1_idle_world:
  "start_battery_control 5000 1 (idle_world []) =
     (Inr (),
      \<lparr>mgr = \<lparr>control_active = True, control_end_time = Some 63900000060,
               watchdog_task = Some 0,
               virtual_entities = [''Manual Battery Power'' \<mapsto> VNum 5000,
                                   ''Manual Control Active'' \<mapsto> VBool False]\<rparr>,
       dev = \<lparr>writes = [(0x10, 0x044C, [1]), (0x10, 0x0450, [1]), (0x10, 0x0451, [2]),
                          (0x10, 0x044D, [300]), (0x10, 0x0455, [250])],
               outcomes = []\<rparr>,
       tasks = [\<lparr>kind = WatchdogPing, state = Created\<rparr>, \<lparr>kind = AutoStop 1, state = Created\<rparr>],
       now = 63900000000,
       rated_power_data = Some [20000],
       log = [LogInfo]\<rparr>)"
  by (simp add: world_eval pp_5000)

lemma first_session_asleep:
  "(run_task 1 (run_task 0 (snd (start_battery_control 5000 1 (idle_world [])))))
     \<lparr>now := now (run_task 1 (run_task 0 (snd (start_battery_control 5000 1 (idle_world []))))) + 30\<rparr>
   = \<lparr>mgr = \<lparr>control_active = True, control_end_time = Some 63900000060,
               watchdog_task = Some 0,
               virtual_entities = [''Manual Battery Power'' \<mapsto> VNum 5000,
                                   ''Manual Control Active'' \<mapsto> VBool False]\<rparr>,
       dev = \<lparr>writes = [(0x10, 0x044C, [1]), (0x10, 0x0450, [1]), (0x10, 0x0451, [2]),
                          (0x10, 0x044D, [300]), (0x10, 0x0455, [250])],
               outcomes = []\<rparr>,
       tasks = [\<lparr>kind = WatchdogPing, state = Sleeping\<rparr>, \<lparr>kind = AutoStop 1, state = Sleeping\<rparr>],
       now = 63900000030,
       rated_power_data = Some [20000],
       log = [LogInfo]\<rparr>"
  by (simp add: start_5000_1_idle_world run_task_def watchdog_continue_def set_task_state_def)

lemma restart_after_30:
  "snd (start_battery_control 3000 10
     \<lparr>mgr = \<lparr>control_active = True, control_end_time = Some 63900000060,
               watchdog_task = Some 0,
               virtual_entities = [''Manual Battery Power'' \<mapsto> VNum 5000,
                                   ''Manual Control Active'' \<mapsto> VBool False]\<rparr>,
       dev = \<lparr>writes = [(0x10, 0x044C, [1]), (0x10, 0x0450, [1]), (0x10, 0x0451, [2]),
                          (0x10, 0x044D, [300]), (0x10, 0x0455, [250])],
               outcomes = []\<rparr>,
       tasks = [\<lparr>kind = WatchdogPing, state = Sleeping\<rparr>, \<lparr>kind = AutoStop 1, state = Sleeping\<rparr>],
       now = 63900000030,
       rated_power_data = Some [20000],
       log = [LogInfo]\<rparr>)
   = \<lparr>mgr = \<lparr>control_active = True, control_end_time = Some 63900000630,
               watchdog_task = Some 2,
               virtual_entities = [''Manual Battery Power'' \<mapsto> VNum 0,
                                   ''Manual Control Active'' \<mapsto> VBool False]\<rparr>,
       dev = \<lparr>writes = [(0x10, 0x044C, [1]), (0x10, 0x0450, [1]), (0x10, 0x0451, [2]),
                          (0x10, 0x044D, [300]), (0x10, 0x0455, [250]),
                          (0x10, 0x044C, [0]), (0x10, 0x0455, [0]),
                          (0x10, 0x044C, [1]), (0x10, 0x0450, [1]), (0x10, 0x0451, [2]),
                          (0x10, 0x044D, [300]), (0x10, 0x0455, [150])],
               outcomes = []\<rparr>,
       tasks = [\<lparr>kind = WatchdogPing, state = Cancelled\<rparr>, \<lparr>kind = AutoStop 1, state = Sleeping\<rparr>,
                \<lparr>kind = WatchdogPing, state = Created\<rparr>, \<lparr>kind = AutoStop 10, state = Created\<rparr>],
       now = 63900000030,
       rated_power_data = Some [20000],
       log = [LogInfo, LogInfo, LogInfo]\<rparr>"
  by (simp add: start_battery_control_def start_try_def stop_battery_control_def rated_power_def
      registers_def reset_registers_def execute_def end_time_def create_task_def cancel_def
      live_def reset_virtual_entities_def pp_3000)

lemma restarted_world_eq:
  "restarted_world =
     \<lparr>mgr = \<lparr>control_active = True, control_end_time = Some 63900000630,
               watchdog_task = Some 2,
               virtual_entities = [''Manual Battery Power'' \<mapsto> VNum 0,
                                   ''Manual Control Active'' \<mapsto> VBool False]\<rparr>,
       dev = \<lparr>writes = [(0x10, 0x044C, [1]), (0x10, 0x0450, [1]), (0x10, 0x0451, [2]),
                          (0x10, 0x044D, [300]), (0x10, 0x0455, [250]),
                          (0x10, 0x044C, [0]), (0x10, 0x0455, [0]),
                          (0x10, 0x044C, [1]), (0x10, 0x0450, [1]), (0x10, 0x0451, [2]),
                          (0x10, 0x044D, [300]), (0x10, 0x0455, [150])],
               outcomes = []\<rparr>,
       tasks = [\<lparr>kind = WatchdogPing, state = Cancelled\<rparr>, \<lparr>kind = AutoStop 1, state = Sleeping\<rparr>,
                \<lparr>kind = WatchdogPing, state = Sleeping\<rparr>, \<lparr>kind = AutoStop 10, state = Sleeping\<rparr>],
       now = 63900000030,
       rated_power_data = Some [20000],
       log = [LogInfo, LogInfo, LogInfo]\<rparr>"
  unfolding restarted_world_def Let_def first_session_asleep restart_after_30
  by (simp add: run_task_def watchdog_continue_def set_task_state_def)

text \<open>
  C6. The claim: Start on an active session is Stop followed by Start with the new
  parameters; the final session state reflects only the new parameters and no timer of
  the prior session is still live. The code: the equivalence holds when the Stop
  sequence clears the session (\<open>start_active_is_stop_then_start\<close>), but the auto-stop
  task of the prior session is never cancelled. After
  \<^verbatim>\<open>start_battery_control(5000, 1)\<close> and, 30 seconds later,
  \<^verbatim>\<open>start_battery_control(3000, 10)\<close>, the session is active with its end time 630
  seconds after the first Start, and the prior auto-stop task (task 1) is still live.
  When its sleep returns, 60 seconds after the first Start, it finds the session active
  and stops it: the new session, started for 10 minutes, ends after 30 seconds.
\<close>

theorem restart_prior_deadline_stops_new_session:
  "control_active (mgr restarted_world)
   \<and> now restarted_world = 63900000030
   \<and> control_end_time (mgr restarted_world) = Some 63900000630
   \<and> watchdog_task (mgr restarted_world) = Some 2
   \<and> tasks restarted_world
       = [\<lparr>kind = WatchdogPing, state = Cancelled\<rparr>, \<lparr>kind = AutoStop 1, state = Sleeping\<rparr>,
          \<lparr>kind = WatchdogPing, state = Sleeping\<rparr>, \<lparr>kind = AutoStop 10, state = Sleeping\<rparr>]
   \<and> live (tasks restarted_world ! 1)
   \<and> \<not> control_active (mgr (wake_task 1 (restarted_world\<lparr>now := 63900000060\<rparr>)))
   \<and> control_end_time (mgr (wake_task 1 (restarted_world\<lparr>now := 63900000060\<rparr>))) = None
   \<and> tasks (wake_task 1 (restarted_world\<lparr>now := 63900000060\<rparr>))
       = [\<lparr>kind = WatchdogPing, state = Cancelled\<rparr>, \<lparr>kind = AutoStop 1, state = Finished\<rparr>,
          \<lparr>kind = WatchdogPing, state = Cancelled\<rparr>, \<lparr>kind = AutoStop 10, state = Sleeping\<rparr>]
   \<and> writes (dev (wake_task 1 (restarted_world\<lparr>now := 63900000060\<rparr>)))
       = writes (dev restarted_world) @ [(0x10, 0x044C, [0]), (0x10, 0x0455, [0])]"
  by (simp add: restarted_world_eq live_def wake_task_def auto_stop_def set_task_state_def
      stop_battery_control_def reset_registers_def execute_def cancel_def
      reset_virtual_entities_def)

subsection \<open>C3: the timers of the session\<close>

text \<open>
  C3. The claim: an active session has exactly one live watchdog-refresh timer and
  exactly one live deadline timer, an inactive one has no live timer, and both timers
  are cancelled on every transition to Idle. The code cancels the watchdog task in
  \<^verbatim>\<open>stop_battery_control\<close> but keeps no handle of the auto-stop task and never
  cancels it. After an explicit Stop whose resets succeed, on the session opened by
  \<^verbatim>\<open>start_battery_control(5000, 10)\<close>, the session is inactive and its deadline
  timer (task 1) is still live. After \<^verbatim>\<open>start_battery_control(3000, 5)\<close> on that
  active session, the session is active with two live deadline timers.
\<close>

theorem stop_leaves_deadline_timer_live:
  "\<not> control_active (mgr (stop_battery_control (active_world [])))
   \<and> tasks (stop_battery_control (active_world []))
       = [\<lparr>kind = WatchdogPing, state = Cancelled\<rparr>, \<lparr>kind = AutoStop 10, state = Created\<rparr>]
   \<and> live_deadlines (stop_battery_control (active_world []))
       = [\<lparr>kind = AutoStop 10, state = Created\<rparr>]
   \<and> \<not> timers_as_specified (stop_battery_control (active_world []))
   \<and> control_active (mgr (snd (start_battery_control 3000 5 (active_world []))))
   \<and> live_deadlines (snd (start_battery_control 3000 5 (active_world [])))
       = [\<lparr>kind = AutoStop 10, state = Created\<rparr>, \<lparr>kind = AutoStop 5, state = Created\<rparr>]
   \<and> \<not> timers_as_specified (snd (start_battery_control 3000 5 (active_world [])))"
  by (simp add: stop_active_world restart_active_world timers_as_specified_def
      live_deadlines_def live_watchdogs_def is_auto_stop_def live_def)

subsection \<open>C5: the rated power\<close>

text \<open>
  C5, as the code has it. The rated power is 20000 when the cached entry is missing or
  empty, and the reading itself otherwise. With an entry that is unavailable or
  positive, the divisor is positive and the division does not raise
  \<^verbatim>\<open>ZeroDivisionError\<close>.
\<close>

theorem rated_power_fallback:
  "rated_power None = 20000
   \<and> rated_power (Some []) = 20000
   \<and> rated_power (Some (x # xs)) = x
   \<and> (entry = None \<or> entry = Some []
        \<or> (\<exists>y ys. entry = Some (y # ys) \<and> 0 < y) \<longrightarrow>
      0 < rated_power entry
      \<and> power_percentage power_watts (rated_power entry) \<noteq> Inl ZeroDivisionError)"
proof -
  have "0 < rated_power entry
        \<and> power_percentage power_watts (rated_power entry) \<noteq> Inl ZeroDivisionError"
    if "entry = None \<or> entry = Some []
        \<or> (\<exists>y ys. entry = Some (y # ys) \<and> 0 < y)"
  proof -
    from that have pos: "0 < rated_power entry" by (auto simp: rated_power_def)
    with power_percentage_zero_division [of power_watts "rated_power entry"]
    show ?thesis by auto
  qed
  then show ?thesis by (simp add: rated_power_def)
qed

theorem rated_power_fallback_witness:
  "rated_power None = 20000
   \<and> 0 < rated_power None
   \<and> power_percentage 5000 (rated_power None) = Inr 250
   \<and> power_percentage 5000 (rated_power None) \<noteq> Inl ZeroDivisionError"
  using rated_power_fallback [of 0 "[]" None 5000] pp_5000
  by (simp add: rated_power_def)

text \<open>
  C5, as the claim states it: the fallback also covers a non-positive reading, so the
  divisor is always positive. With the reading 0 in the telemetry the code divides by
  it: Start raises \<^verbatim>\<open>ZeroDivisionError\<close> before any write.
\<close>

theorem zero_rated_power_divides_by_zero:
  "rated_power (Some [0]) = 0
   \<and> power_percentage 5000 (rated_power (Some [0])) = Inl ZeroDivisionError
   \<and> fst (start_battery_control 5000 10 ((idle_world [])\<lparr>rated_power_data := Some [0]\<rparr>))
       = Inl ZeroDivisionError
   \<and> writes (dev (snd (start_battery_control 5000 10
        ((idle_world [])\<lparr>rated_power_data := Some [0]\<rparr>)))) = []"
  by (simp add: world_eval power_percentage_def truediv_def)


subsection \<open>C4: the power percentage\<close>


lemma pp_1001: "power_percentage 1001 1000 = Inr 1000"
  by (simp add: power_percentage_def truediv_def float_eval)






end
